theory Spec2Isabelle
  imports Complex_Main "HOL-Library.Signed_Division"
begin

section \<open>Data model\<close>

text \<open>
  The embedding follows \<^verbatim>\<open>src/particle_filter.cpp\<close>. A C++ \<^verbatim>\<open>double\<close> is a
  \<^typ>\<open>real\<close>: \<^verbatim>\<open>sqrt\<close>, \<^verbatim>\<open>sin\<close>, \<^verbatim>\<open>cos\<close> and the arithmetic are the exact
  ones, so rounding, overflow to infinity and NaN are outside the model. A C++ \<^verbatim>\<open>int\<close>
  is an \<^typ>\<open>int\<close>; the only integers of the file are loop counters, indices and the
  particle count 100, far from the 32-bit bounds.

  The header that declares the structs is not among the sources; the records below
  have the fields the functions read and write. The scalar fields of a particle
  (\<^verbatim>\<open>id\<close>, \<^verbatim>\<open>x\<close>, \<^verbatim>\<open>y\<close>, \<^verbatim>\<open>theta\<close>) carry the prefix \<open>p_\<close> and those of an
  observation (\<^verbatim>\<open>x\<close>, \<^verbatim>\<open>y\<close>) the prefix \<open>o_\<close>, because the functions use the bare
  names for their local variables.
\<close>

record Particle =
  p_id :: int
  p_x :: real
  p_y :: real
  p_theta :: real
  weight :: real
  associations :: "int list"
  sense_x :: "real list"
  sense_y :: "real list"

record LandmarkObs =
  o_x :: real
  o_y :: real

record single_landmark_s =
  x_f :: real
  y_f :: real

record Map =
  landmark_list :: "single_landmark_s list"

text \<open>The members of \<^verbatim>\<open>ParticleFilter\<close> that the functions use.\<close>

record ParticleFilter =
  num_particles :: int
  is_initialized :: bool
  particles :: "Particle list"
  max_weight :: real

text \<open>
  \<open>prediction\<close>, \<open>updateWeights\<close> and \<open>resample\<close> return \<open>Some\<close> of the filter they
  leave behind. \<open>None\<close> stands for a call without a defined outcome: a vector read out
  of range, or a loop that does not end. The source has no \<^verbatim>\<open>throw\<close> and no error
  return, so no function of the model has an error value to give.
\<close>

section \<open>The pseudorandom source\<close>

text \<open>
  The functions draw their randomness from \<^verbatim>\<open><random>\<close> of the C++ standard
  library, which is a parameter of the model: the state \<open>'g\<close> of an engine, the state
  of a default-constructed \<^verbatim>\<open>std::default_random_engine\<close>, and what one draw from
  an engine state yields together with the state it leaves:
  \<^item> \<open>standard_normal\<close>: a standard normal variate, from which
    \<^verbatim>\<open>std::normal_distribution\<close> computes its sample;
  \<^item> \<open>generate_canonical\<close>: a variate of \<open>[0, 1)\<close>, from which
    \<^verbatim>\<open>std::uniform_real_distribution\<close> computes its sample;
  \<^item> \<open>discrete_sample\<close>: the outcome of a \<^verbatim>\<open>std::discrete_distribution\<close> that
    has two weights or more.
  \<open>prediction\<close> constructs \<^verbatim>\<open>dist_x\<close>, \<^verbatim>\<open>dist_y\<close> and \<^verbatim>\<open>dist_theta\<close> inside
  its loop body and draws once from each, and the \<^verbatim>\<open>rand_beta\<close> of \<open>resample\<close> is a
  uniform distribution, which keeps nothing between draws: no distribution carries state
  from one draw to another. \<^verbatim>\<open>init\<close>, which draws 100 times from each of three
  normal distributions and sets \<open>num_particles\<close> to 100 and \<open>is_initialized\<close>, is not
  part of the model; the statements below are about any filter.
\<close>

record 'g random_library =
  default_random_engine :: 'g
  standard_normal :: "'g \<Rightarrow> real \<times> 'g"
  generate_canonical :: "'g \<Rightarrow> real \<times> 'g"
  discrete_sample :: "real list \<Rightarrow> 'g \<Rightarrow> int \<times> 'g"

definition normal_distribution :: "'g random_library \<Rightarrow> real \<Rightarrow> real \<Rightarrow> 'g \<Rightarrow> real \<times> 'g" where
  "normal_distribution lib mean stddev gen =
     (case standard_normal lib gen of (z, gen') \<Rightarrow> (z * stddev + mean, gen'))"

definition uniform_real_distribution :: "'g random_library \<Rightarrow> real \<Rightarrow> real \<Rightarrow> 'g \<Rightarrow> real \<times> 'g" where
  "uniform_real_distribution lib a b gen =
     (case generate_canonical lib gen of (u, gen') \<Rightarrow> (u * (b - a) + a, gen'))"

text \<open>
  \<^verbatim>\<open>std::discrete_distribution<> rand_index(0, num_particles)\<close>: the two arguments
  are of type \<^verbatim>\<open>int\<close>, so the constructor from an iterator range is instantiated at
  \<^verbatim>\<open>int\<close> and stores its weights as \<^verbatim>\<open>std::vector<double>(0, num_particles)\<close>,
  which for two integers is the vector of \<open>count\<close> copies of the value \<open>val\<close>. A
  discrete distribution with fewer than two weights has the single outcome 0 and
  leaves the engine as it is.
\<close>

definition discrete_distribution :: "int \<Rightarrow> int \<Rightarrow> real list" where
  "discrete_distribution count val = replicate (nat count) (real_of_int val)"

definition discrete_draw :: "'g random_library \<Rightarrow> real list \<Rightarrow> 'g \<Rightarrow> int \<times> 'g" where
  "discrete_draw lib weights gen =
     (if length weights < 2 then (0, gen) else discrete_sample lib weights gen)"

section \<open>dataAssociation\<close>

text \<open>
  The loop of lines 116 to 128 with its three variables. \<^verbatim>\<open>min_dist\<close> is declared
  \<^verbatim>\<open>int\<close>: the comparison converts it to \<^verbatim>\<open>double\<close>, and the assignment
  \<^verbatim>\<open>min_dist = curr_dist\<close> converts the distance to \<^verbatim>\<open>int\<close>, which drops its
  fraction (the distance is not negative and below 999999 there, so this is the floor).
\<close>

function dataAssociation_loop :: "LandmarkObs \<Rightarrow> Map \<Rightarrow> int \<Rightarrow> int \<Rightarrow> int \<Rightarrow> int" where
  "dataAssociation_loop observation map_landmarks i closest_landmark_id min_dist =
     (if 0 \<le> i \<and> nat i < length (landmark_list map_landmarks) then
        (let curr_dist =
               sqrt ((o_x observation - x_f (landmark_list map_landmarks ! nat i))\<^sup>2
                   + (o_y observation - y_f (landmark_list map_landmarks ! nat i))\<^sup>2)
         in if curr_dist < real_of_int min_dist
            then dataAssociation_loop observation map_landmarks (i + 1) i \<lfloor>curr_dist\<rfloor>
            else dataAssociation_loop observation map_landmarks (i + 1) closest_landmark_id min_dist)
      else closest_landmark_id)"
  by pat_completeness auto
termination
  by (relation "measure (\<lambda>(observation, map_landmarks, i, closest_landmark_id, min_dist).
        length (landmark_list map_landmarks) - nat i)") auto

declare dataAssociation_loop.simps [simp del]

definition dataAssociation :: "LandmarkObs \<Rightarrow> Map \<Rightarrow> int" where
  "dataAssociation observation map_landmarks =
     dataAssociation_loop observation map_landmarks 0 0 999999"

text \<open>The Euclidean distance of an observation to a landmark, as line 120 computes it.\<close>

definition euclidean :: "LandmarkObs \<Rightarrow> single_landmark_s \<Rightarrow> real" where
  "euclidean observation landmark =
     sqrt ((o_x observation - x_f landmark)\<^sup>2 + (o_y observation - y_f landmark)\<^sup>2)"

section \<open>prediction\<close>

text \<open>
  An array argument (\<^verbatim>\<open>double std_pos[]\<close>, \<^verbatim>\<open>std_landmark[]\<close>) is the tuple of the
  elements the function reads: indices 0, 1 and 2, or 0 and 1.

  Lines 81 to 88: the pose after the motion, before the noise. The test is the exact
  \<^verbatim>\<open>yaw_rate == 0\<close>. The arithmetic here is that of the reals; the doubles of the
  source differ from it beyond rounding where \<^verbatim>\<open>yaw_rate * delta_t\<close> is not 0 but
  below the spacing of the doubles at \<^verbatim>\<open>theta\<close>: there \<^verbatim>\<open>theta + yaw_rate * delta_t\<close>
  is \<^verbatim>\<open>theta\<close> again, both differences of line 85 and 86 are 0, and the source
  leaves the pose where it is. No statement below depends on the values of
  \<open>predict_pose\<close> at a yaw rate other than 0.
\<close>

definition predict_pose :: "real \<Rightarrow> real \<Rightarrow> real \<Rightarrow> real \<times> real \<times> real \<Rightarrow> real \<times> real \<times> real" where
  "predict_pose delta_t velocity yaw_rate pose =
     (case pose of (x, y, theta) \<Rightarrow>
        if yaw_rate = 0
        then (x + velocity * cos theta * delta_t, y + velocity * sin theta * delta_t, theta)
        else (x + velocity * (sin (theta + yaw_rate * delta_t) - sin theta) / yaw_rate,
              y + velocity * (- cos (theta + yaw_rate * delta_t) + cos theta) / yaw_rate,
              theta + yaw_rate * delta_t))"

text \<open>Lines 75 to 98: one pass of the loop body, on the particle of index \<open>i\<close>.\<close>

definition prediction_step ::
  "'g random_library \<Rightarrow> real \<Rightarrow> real \<times> real \<times> real \<Rightarrow> real \<Rightarrow> real \<Rightarrow> Particle \<Rightarrow> 'g
   \<Rightarrow> Particle \<times> 'g" where
  "prediction_step lib delta_t std_pos velocity yaw_rate particle gen =
     (case predict_pose delta_t velocity yaw_rate (p_x particle, p_y particle, p_theta particle) of
        (x, y, theta) \<Rightarrow>
      case std_pos of (std_pos0, std_pos1, std_pos2) \<Rightarrow>
      case normal_distribution lib x std_pos0 gen of (dx, gen1) \<Rightarrow>
      case normal_distribution lib y std_pos1 gen1 of (dy, gen2) \<Rightarrow>
      case normal_distribution lib theta std_pos2 gen2 of (dtheta, gen3) \<Rightarrow>
        (particle\<lparr>p_x := dx, p_y := dy, p_theta := dtheta\<rparr>, gen3))"

function prediction_loop ::
  "'g random_library \<Rightarrow> real \<Rightarrow> real \<times> real \<times> real \<Rightarrow> real \<Rightarrow> real \<Rightarrow> int \<Rightarrow> int \<Rightarrow> 'g
   \<Rightarrow> Particle list \<Rightarrow> Particle list option" where
  "prediction_loop lib delta_t std_pos velocity yaw_rate n i gen ps =
     (if i < n then
        (if 0 \<le> i \<and> nat i < length ps then
           (case prediction_step lib delta_t std_pos velocity yaw_rate (ps ! nat i) gen of
              (particle, gen') \<Rightarrow>
                prediction_loop lib delta_t std_pos velocity yaw_rate n (i + 1) gen'
                  (ps[nat i := particle]))
         else None)
      else Some ps)"
  by pat_completeness auto
termination
  by (relation "measure (\<lambda>(lib, delta_t, std_pos, velocity, yaw_rate, n, i, gen, ps). nat (n - i))")
    auto

declare prediction_loop.simps [simp del]

text \<open>
  Line 72 constructs the engine anew on every call: the loop starts from the state of a
  default-constructed engine, and the engine is not part of what the call leaves behind.
\<close>

definition prediction ::
  "'g random_library \<Rightarrow> real \<Rightarrow> real \<times> real \<times> real \<Rightarrow> real \<Rightarrow> real \<Rightarrow> ParticleFilter
   \<Rightarrow> ParticleFilter option" where
  "prediction lib delta_t std_pos velocity yaw_rate pf =
     map_option (\<lambda>ps. pf\<lparr>particles := ps\<rparr>)
       (prediction_loop lib delta_t std_pos velocity yaw_rate (num_particles pf) 0
          (default_random_engine lib) (particles pf))"

section \<open>The helper functions\<close>

text \<open>
  Modelled from the spec: \<^verbatim>\<open>transform_obs\<close> is defined in \<^verbatim>\<open>helper_functions.h\<close>,
  which is not among the sources. Section 4.4 of the spec: the observation is rotated by
  the particle's heading, then translated by the particle's position.
\<close>

definition transform_obs :: "real \<Rightarrow> real \<Rightarrow> real \<Rightarrow> LandmarkObs \<Rightarrow> LandmarkObs" where
  "transform_obs x y theta observation =
     \<lparr>o_x = x + (cos theta * o_x observation - sin theta * o_y observation),
      o_y = y + (sin theta * o_x observation + cos theta * o_y observation)\<rparr>"

text \<open>
  Modelled from the spec: \<^verbatim>\<open>normPdf2d\<close> is defined in \<^verbatim>\<open>helper_functions.h\<close>, which
  is not among the sources. Section 4.4 of the spec: the bivariate Gaussian density with
  independent axes (no correlation term), at \<open>(x, y)\<close>, centred at \<open>(mu_x, mu_y)\<close>.
\<close>

definition normPdf2d :: "real \<Rightarrow> real \<Rightarrow> real \<Rightarrow> real \<Rightarrow> real \<Rightarrow> real \<Rightarrow> real" where
  "normPdf2d x y mu_x mu_y sig_x sig_y =
     1 / (2 * pi * sig_x * sig_y)
       * exp (- ((x - mu_x)\<^sup>2 / (2 * sig_x\<^sup>2) + (y - mu_y)\<^sup>2 / (2 * sig_y\<^sup>2)))"

section \<open>updateWeights\<close>

text \<open>
  Lines 155 to 168: the loop over the observations, for one particle; \<open>idx\<close> is the
  local \<^verbatim>\<open>id\<close>. The read \<^verbatim>\<open>landmark_list[id]\<close> has no defined value when \<^verbatim>\<open>id\<close>
  is not an index of the list.
\<close>

fun observation_loop :: "real \<times> real \<Rightarrow> Map \<Rightarrow> LandmarkObs list \<Rightarrow> Particle \<Rightarrow> Particle option" where
  "observation_loop std_landmark map_landmarks [] particle = Some particle"
| "observation_loop std_landmark map_landmarks (observation # rest) particle =
     (let transformed_obs =
            transform_obs (p_x particle) (p_y particle) (p_theta particle) observation;
          idx = dataAssociation transformed_obs map_landmarks
      in if 0 \<le> idx \<and> nat idx < length (landmark_list map_landmarks) then
           (let weight_part =
                  normPdf2d (o_x transformed_obs) (o_y transformed_obs)
                    (x_f (landmark_list map_landmarks ! nat idx))
                    (y_f (landmark_list map_landmarks ! nat idx))
                    (fst std_landmark) (snd std_landmark)
            in observation_loop std_landmark map_landmarks rest
                 (particle\<lparr>weight := weight particle * weight_part\<rparr>))
         else None)"

text \<open>
  Lines 152 to 174: the loop over the particles; \<open>mw\<close> is the member \<^verbatim>\<open>max_weight\<close>
  as the loop updates it.
\<close>

fun particle_loop ::
  "real \<times> real \<Rightarrow> LandmarkObs list \<Rightarrow> Map \<Rightarrow> Particle list \<Rightarrow> real
   \<Rightarrow> (Particle list \<times> real) option" where
  "particle_loop std_landmark observations map_landmarks [] mw = Some ([], mw)"
| "particle_loop std_landmark observations map_landmarks (particle # rest) mw =
     (case observation_loop std_landmark map_landmarks observations (particle\<lparr>weight := 1\<rparr>) of
        None \<Rightarrow> None
      | Some particle' \<Rightarrow>
          (case particle_loop std_landmark observations map_landmarks rest
                  (if weight particle' > mw then weight particle' else mw) of
             None \<Rightarrow> None
           | Some (rest', mw') \<Rightarrow> Some (particle' # rest', mw')))"

definition updateWeights ::
  "real \<Rightarrow> real \<times> real \<Rightarrow> LandmarkObs list \<Rightarrow> Map \<Rightarrow> ParticleFilter \<Rightarrow> ParticleFilter option" where
  "updateWeights sensor_range std_landmark observations map_landmarks pf =
     (case particle_loop std_landmark observations map_landmarks (particles pf) 0 of
        None \<Rightarrow> None
      | Some (ps, mw) \<Rightarrow> Some (pf\<lparr>particles := ps, max_weight := mw\<rparr>))"

section \<open>resample\<close>

text \<open>
  Lines 205 to 208: the \<^verbatim>\<open>while\<close> loop. It reads \<^verbatim>\<open>particles[index]\<close>, and it need
  not end. \<^verbatim>\<open>%\<close> is the remainder of the division that truncates, \<open>smod\<close>.
\<close>

partial_function (option) wheel :: "Particle list \<Rightarrow> int \<Rightarrow> real \<Rightarrow> int \<Rightarrow> (real \<times> int) option" where
  "wheel ps n b index =
     (if 0 \<le> index \<and> nat index < length ps then
        (if b > weight (ps ! nat index)
         then wheel ps n (b - weight (ps ! nat index)) ((index + 1) smod n)
         else Some (b, index))
      else None)"

text \<open>Lines 202 to 210: the \<^verbatim>\<open>for\<close> loop.\<close>

function resample_loop ::
  "'g random_library \<Rightarrow> ParticleFilter \<Rightarrow> int \<Rightarrow> int \<Rightarrow> real \<Rightarrow> 'g \<Rightarrow> Particle list
   \<Rightarrow> Particle list option" where
  "resample_loop lib pf i index b gen resampled_particles =
     (if i < num_particles pf then
        (case uniform_real_distribution lib 0 (max_weight pf) gen of
           (beta, gen') \<Rightarrow>
             (case wheel (particles pf) (num_particles pf) (b + beta) index of
                None \<Rightarrow> None
              | Some (b', index') \<Rightarrow>
                  resample_loop lib pf (i + 1) index' b' gen'
                    (resampled_particles @ [particles pf ! nat index'])))
      else Some resampled_particles)"
  by pat_completeness auto
termination
  by (relation "measure (\<lambda>(lib, pf, i, index, b, gen, resampled_particles).
        nat (num_particles pf - i))") auto

declare resample_loop.simps [simp del]

text \<open>
  Lines 192 to 198 and 212. The engine is constructed anew on every call, and
  \<^verbatim>\<open>rand_index\<close> is the discrete distribution built from \<^verbatim>\<open>(0, num_particles)\<close>.
\<close>

definition resample :: "'g random_library \<Rightarrow> ParticleFilter \<Rightarrow> ParticleFilter option" where
  "resample lib pf =
     (case discrete_draw lib (discrete_distribution 0 (num_particles pf))
             (default_random_engine lib) of
        (index, gen) \<Rightarrow>
          map_option (\<lambda>ps. pf\<lparr>particles := ps\<rparr>) (resample_loop lib pf 0 index 0 gen []))"

section \<open>Example inputs\<close>

text \<open>
  A library whose engine state is a counter, for the examples: the \<open>g\<close>-th normal variate
  is \<open>g / 2\<close> and the \<open>g\<close>-th canonical variate is \<open>1 / (g + 2)\<close>.
\<close>

definition counter_library :: "nat random_library" where
  "counter_library =
     \<lparr>default_random_engine = 1,
      standard_normal = (\<lambda>g. (real g / 2, Suc g)),
      generate_canonical = (\<lambda>g. (1 / (real g + 2), Suc g)),
      discrete_sample = (\<lambda>ws g. (0, Suc g))\<rparr>"


definition particle_at :: "int \<Rightarrow> real \<Rightarrow> real \<Rightarrow> real \<Rightarrow> real \<Rightarrow> Particle" where
  "particle_at i x y theta w =
     \<lparr>p_id = i, p_x = x, p_y = y, p_theta = theta, weight = w,
      associations = [], sense_x = [], sense_y = []\<rparr>"

definition one_particle_filter :: "real \<Rightarrow> real \<Rightarrow> real \<Rightarrow> ParticleFilter" where
  "one_particle_filter x y theta =
     \<lparr>num_particles = 1, is_initialized = True, particles = [particle_at 0 x y theta 1],
      max_weight = 1\<rparr>"

definition two_particle_filter :: ParticleFilter where
  "two_particle_filter =
     \<lparr>num_particles = 2, is_initialized = True,
      particles = [\<lparr>p_id = 4, p_x = 0, p_y = 0, p_theta = 0, weight = 1 / 2,
                     associations = [3], sense_x = [1], sense_y = [2]\<rparr>,
                   particle_at 5 1 1 0 (1 / 4)],
      max_weight = 1 / 2\<rparr>"

definition one_landmark_map :: Map where
  "one_landmark_map = \<lparr>landmark_list = [\<lparr>x_f = 1, y_f = 0\<rparr>]\<rparr>"

definition zero_weight_filter :: "real \<Rightarrow> ParticleFilter" where
  "zero_weight_filter mw =
     \<lparr>num_particles = 2, is_initialized = True,
      particles = [particle_at 0 0 0 0 0, particle_at 1 5 5 0 0], max_weight = mw\<rparr>"

definition unit_weight_filter :: ParticleFilter where
  "unit_weight_filter =
     \<lparr>num_particles = 3, is_initialized = True,
      particles = [particle_at 0 0 0 0 1, particle_at 1 5 5 0 1, particle_at 2 9 9 0 1],
      max_weight = 1\<rparr>"

section \<open>Notions for the statements\<close>

text \<open>
  The state of an engine after \<open>k\<close> normal variates were drawn from it, and the \<open>k\<close>-th
  normal variate (counted from 0) that a default-constructed engine yields.
\<close>

fun engine_after :: "'g random_library \<Rightarrow> 'g \<Rightarrow> nat \<Rightarrow> 'g" where
  "engine_after lib gen 0 = gen"
| "engine_after lib gen (Suc k) = snd (standard_normal lib (engine_after lib gen k))"

definition nth_normal :: "'g random_library \<Rightarrow> nat \<Rightarrow> real" where
  "nth_normal lib k = fst (standard_normal lib (engine_after lib (default_random_engine lib) k))"

text \<open>
  What \<open>prediction\<close> makes of the particle of index \<open>j\<close>: the pose of \<open>predict_pose\<close>
  plus, on each axis, the standard deviation times one normal variate.
\<close>

definition noisy_particle ::
  "'g random_library \<Rightarrow> real \<Rightarrow> real \<times> real \<times> real \<Rightarrow> real \<Rightarrow> real \<Rightarrow> nat \<Rightarrow> Particle \<Rightarrow> Particle" where
  "noisy_particle lib delta_t std_pos velocity yaw_rate j particle =
     (case predict_pose delta_t velocity yaw_rate (p_x particle, p_y particle, p_theta particle) of
        (x, y, theta) \<Rightarrow>
      case std_pos of (std_pos0, std_pos1, std_pos2) \<Rightarrow>
        particle\<lparr>p_x := nth_normal lib (3 * j) * std_pos0 + x,
                 p_y := nth_normal lib (3 * j + 1) * std_pos1 + y,
                 p_theta := nth_normal lib (3 * j + 2) * std_pos2 + theta\<rparr>)"

text \<open>
  The noise of a \<open>prediction\<close> call, read off the filter before and after it: for each
  particle the call moves, the stored pose minus the pose of \<open>predict_pose\<close>.
\<close>

definition prediction_noise ::
  "real \<Rightarrow> real \<Rightarrow> real \<Rightarrow> ParticleFilter \<Rightarrow> ParticleFilter \<Rightarrow> (real \<times> real \<times> real) list" where
  "prediction_noise delta_t velocity yaw_rate before after =
     map (\<lambda>j. case predict_pose delta_t velocity yaw_rate
                     (p_x (particles before ! j), p_y (particles before ! j),
                      p_theta (particles before ! j)) of
                 (x, y, theta) \<Rightarrow>
                   (p_x (particles after ! j) - x, p_y (particles after ! j) - y,
                    p_theta (particles after ! j) - theta))
       [0..<nat (num_particles before)]"

text \<open>
  The density that \<open>updateWeights\<close> multiplies into the weight of a particle for one
  observation: \<open>normPdf2d\<close> at the observation transformed with the particle's pose
  \<open>(x, y, theta)\<close>, centred at the landmark that \<open>dataAssociation\<close> gives for it.
\<close>

definition observation_density ::
  "real \<times> real \<Rightarrow> Map \<Rightarrow> real \<times> real \<times> real \<Rightarrow> LandmarkObs \<Rightarrow> real" where
  "observation_density std_landmark map_landmarks pose observation =
     (case pose of (x, y, theta) \<Rightarrow>
        (let transformed_obs = transform_obs x y theta observation;
             landmark =
               landmark_list map_landmarks ! nat (dataAssociation transformed_obs map_landmarks)
         in normPdf2d (o_x transformed_obs) (o_y transformed_obs) (x_f landmark) (y_f landmark)
              (fst std_landmark) (snd std_landmark)))"

text \<open>
  What \<open>updateWeights\<close> makes of a particle: its weight becomes the product of the
  densities of all observations, and nothing else changes.
\<close>

definition reweighed :: "real \<times> real \<Rightarrow> LandmarkObs list \<Rightarrow> Map \<Rightarrow> Particle \<Rightarrow> Particle" where
  "reweighed std_landmark observations map_landmarks particle =
     particle\<lparr>weight :=
       prod_list (map (observation_density std_landmark map_landmarks
                         (p_x particle, p_y particle, p_theta particle)) observations)\<rparr>"

section \<open>Properties of dataAssociation\<close>

lemma dataAssociation_loop_result:
  "0 \<le> i \<Longrightarrow>
   dataAssociation_loop ob m i c d = c
   \<or> (i \<le> dataAssociation_loop ob m i c d
      \<and> dataAssociation_loop ob m i c d < int (length (landmark_list m)))"
proof (induction ob m i c d rule: dataAssociation_loop.induct)
  case (1 ob m i c d)
  show ?case
  proof (cases "0 \<le> i \<and> nat i < length (landmark_list m)")
    case False
    then have "dataAssociation_loop ob m i c d = c"
      using dataAssociation_loop.simps [of ob m i c d] by auto
    then show ?thesis by simp
  next
    case True
    let ?cd = "sqrt ((o_x ob - x_f (landmark_list m ! nat i))\<^sup>2
                   + (o_y ob - y_f (landmark_list m ! nat i))\<^sup>2)"
    show ?thesis
    proof (cases "?cd < real_of_int d")
      case near: True
      have step: "dataAssociation_loop ob m i c d = dataAssociation_loop ob m (i + 1) i \<lfloor>?cd\<rfloor>"
        using True near dataAssociation_loop.simps [of ob m i c d] by (simp add: Let_def)
      have "dataAssociation_loop ob m (i + 1) i \<lfloor>?cd\<rfloor> = i
            \<or> (i + 1 \<le> dataAssociation_loop ob m (i + 1) i \<lfloor>?cd\<rfloor>
               \<and> dataAssociation_loop ob m (i + 1) i \<lfloor>?cd\<rfloor> < int (length (landmark_list m)))"
        using "1.IH"(1) [OF True refl near] "1.prems" by simp
      with True step show ?thesis by auto
    next
      case far: False
      have step: "dataAssociation_loop ob m i c d = dataAssociation_loop ob m (i + 1) c d"
        using True far dataAssociation_loop.simps [of ob m i c d] by (simp add: Let_def)
      have "dataAssociation_loop ob m (i + 1) c d = c
            \<or> (i + 1 \<le> dataAssociation_loop ob m (i + 1) c d
               \<and> dataAssociation_loop ob m (i + 1) c d < int (length (landmark_list m)))"
        using "1.IH"(2) [OF True refl far] "1.prems" by simp
      with step show ?thesis by auto
    qed
  qed
qed

lemma dataAssociation_in_range:
  "landmark_list m \<noteq> [] \<Longrightarrow>
   0 \<le> dataAssociation ob m \<and> nat (dataAssociation ob m) < length (landmark_list m)"
  using dataAssociation_loop_result [of 0 ob m 0 999999]
  by (auto simp: dataAssociation_def)

text \<open>
  C1. The claim: on a non-empty landmark collection \<open>dataAssociation\<close> returns the index
  of the landmark nearest to the observation. The code does not: with the observation at
  the origin and the landmarks \<open>(3/2, 0)\<close> and \<open>(5/4, 0)\<close> it returns index 0, although
  the landmark of index 1 is nearer (after the first landmark the integer \<open>min_dist\<close>
  holds 1, and \<open>5/4 < 1\<close> fails); and with the landmarks \<open>(1/2, 0)\<close> and \<open>(0, 0)\<close> it
  returns index 0, although the observation lies on the landmark of index 1.
\<close>

theorem dataAssociation_truncates_min_dist:
  "dataAssociation \<lparr>o_x = 0, o_y = 0\<rparr>
     \<lparr>landmark_list = [\<lparr>x_f = 3/2, y_f = 0\<rparr>, \<lparr>x_f = 5/4, y_f = 0\<rparr>]\<rparr> = 0
   \<and> euclidean \<lparr>o_x = 0, o_y = 0\<rparr> \<lparr>x_f = 5/4, y_f = 0\<rparr>
       < euclidean \<lparr>o_x = 0, o_y = 0\<rparr> \<lparr>x_f = 3/2, y_f = 0\<rparr>
   \<and> dataAssociation \<lparr>o_x = 0, o_y = 0\<rparr>
       \<lparr>landmark_list = [\<lparr>x_f = 1/2, y_f = 0\<rparr>, \<lparr>x_f = 0, y_f = 0\<rparr>]\<rparr> = 0
   \<and> euclidean \<lparr>o_x = 0, o_y = 0\<rparr> \<lparr>x_f = 0, y_f = 0\<rparr> = 0"
  by (simp add: dataAssociation_def dataAssociation_loop.simps euclidean_def)

text \<open>
  C7. The claim: on an empty landmark collection \<open>dataAssociation\<close> fails with
  \<open>EmptyMap\<close>. The code returns: the loop body never runs and the result is the initial
  value 0 of \<open>closest_landmark_id\<close>, for every observation.
\<close>

theorem dataAssociation_empty_map_counterexample:
  "dataAssociation \<lparr>o_x = 1, o_y = 2\<rparr> \<lparr>landmark_list = []\<rparr> = 0"
  by (simp add: dataAssociation_def dataAssociation_loop.simps)

text \<open>
  C7, as amended. On an empty landmark collection \<open>dataAssociation\<close> signals nothing
  and returns 0, whatever the observation is.
\<close>

theorem dataAssociation_empty_map_returns_zero:
  "dataAssociation observation \<lparr>landmark_list = []\<rparr> = 0"
  by (simp add: dataAssociation_def dataAssociation_loop.simps)

section \<open>Properties of prediction\<close>

lemma prediction_step_eq:
  assumes "gen = engine_after lib (default_random_engine lib) (3 * j)"
  shows "prediction_step lib dt sp v w p gen
         = (noisy_particle lib dt sp v w j p, engine_after lib (default_random_engine lib) (3 * Suc j))"
proof -
  obtain s0 s1 s2 where sp: "sp = (s0, s1, s2)" by (cases sp) auto
  obtain x y th where pp: "predict_pose dt v w (p_x p, p_y p, p_theta p) = (x, y, th)"
    by (cases "predict_pose dt v w (p_x p, p_y p, p_theta p)") auto
  have three: "3 * Suc j = Suc (Suc (Suc (3 * j)))" by simp
  show ?thesis
    unfolding three
    by (simp add: prediction_step_def noisy_particle_def normal_distribution_def nth_normal_def
        sp pp assms split: prod.splits)
qed

lemma prediction_loop_spec:
  assumes "0 \<le> i" and "n \<le> int (length ps)"
    and "gen = engine_after lib (default_random_engine lib) (3 * nat i)"
  shows "\<exists>ps'. prediction_loop lib dt sp v w n i gen ps = Some ps'
           \<and> length ps' = length ps
           \<and> (\<forall>j<length ps. ps' ! j =
                 (if i \<le> int j \<and> int j < n then noisy_particle lib dt sp v w j (ps ! j)
                  else ps ! j))"
  using assms
proof (induction lib dt sp v w n i gen ps rule: prediction_loop.induct)
  case (1 lib dt sp v w n i gen ps)
  show ?case
  proof (cases "i < n")
    case False
    then have "prediction_loop lib dt sp v w n i gen ps = Some ps"
      using prediction_loop.simps [of lib dt sp v w n i gen ps] by simp
    with False show ?thesis by auto
  next
    case True
    with "1.prems" have inr: "0 \<le> i \<and> nat i < length ps" by auto
    let ?g' = "engine_after lib (default_random_engine lib) (3 * Suc (nat i))"
    let ?p = "noisy_particle lib dt sp v w (nat i) (ps ! nat i)"
    have st: "prediction_step lib dt sp v w (ps ! nat i) gen = (?p, ?g')"
      using prediction_step_eq [of gen lib "nat i"] "1.prems"(3) by simp
    have step: "prediction_loop lib dt sp v w n i gen ps
                = prediction_loop lib dt sp v w n (i + 1) ?g' (ps[nat i := ?p])"
      using True inr st prediction_loop.simps [of lib dt sp v w n i gen ps] by simp
    have g': "?g' = engine_after lib (default_random_engine lib) (3 * nat (i + 1))"
      using inr by (simp add: nat_add_distrib)
    obtain ps' where r: "prediction_loop lib dt sp v w n (i + 1) ?g' (ps[nat i := ?p]) = Some ps'"
      and len: "length ps' = length (ps[nat i := ?p])"
      and nth: "\<forall>j<length (ps[nat i := ?p]). ps' ! j =
                 (if i + 1 \<le> int j \<and> int j < n
                  then noisy_particle lib dt sp v w j (ps[nat i := ?p] ! j)
                  else ps[nat i := ?p] ! j)"
      using "1.IH" [OF True inr st [symmetric] _ _ g'] "1.prems" inr
      by auto
    have "\<forall>j<length ps. ps' ! j =
            (if i \<le> int j \<and> int j < n then noisy_particle lib dt sp v w j (ps ! j) else ps ! j)"
    proof (intro allI impI)
      fix j assume j: "j < length ps"
      show "ps' ! j =
            (if i \<le> int j \<and> int j < n then noisy_particle lib dt sp v w j (ps ! j) else ps ! j)"
      proof (cases "j = nat i")
        case True
        with nth j inr \<open>i < n\<close> show ?thesis by simp
      next
        case False
        with nth j inr show ?thesis by (auto simp: nth_list_update)
      qed
    qed
    with step r len show ?thesis by simp
  qed
qed

lemma prediction_spec:
  assumes "num_particles pf \<le> int (length (particles pf))"
  shows "\<exists>ps'. prediction lib dt sp v w pf = Some (pf\<lparr>particles := ps'\<rparr>)
           \<and> length ps' = length (particles pf)
           \<and> (\<forall>j<length (particles pf). ps' ! j =
                 (if int j < num_particles pf then noisy_particle lib dt sp v w j (particles pf ! j)
                  else particles pf ! j))"
  using prediction_loop_spec [of 0 "num_particles pf" "particles pf" "default_random_engine lib" lib dt sp v w]
    assms
  by (auto simp: prediction_def)

lemma noisy_particle_frame:
  "p_id (noisy_particle lib dt sp v w j p) = p_id p
   \<and> weight (noisy_particle lib dt sp v w j p) = weight p
   \<and> associations (noisy_particle lib dt sp v w j p) = associations p
   \<and> sense_x (noisy_particle lib dt sp v w j p) = sense_x p
   \<and> sense_y (noisy_particle lib dt sp v w j p) = sense_y p"
  by (simp add: noisy_particle_def split: prod.splits)

lemma prediction_noise_eq:
  assumes "num_particles pf \<le> int (length (particles pf))"
    and "prediction lib dt (s0, s1, s2) v w pf = Some pf'"
  shows "prediction_noise dt v w pf pf'
         = map (\<lambda>j. (nth_normal lib (3 * j) * s0, nth_normal lib (3 * j + 1) * s1,
                      nth_normal lib (3 * j + 2) * s2)) [0..<nat (num_particles pf)]"
proof -
  obtain ps' where r: "prediction lib dt (s0, s1, s2) v w pf = Some (pf\<lparr>particles := ps'\<rparr>)"
    and nth: "\<forall>j<length (particles pf). ps' ! j =
                 (if int j < num_particles pf
                  then noisy_particle lib dt (s0, s1, s2) v w j (particles pf ! j)
                  else particles pf ! j)"
    using prediction_spec [OF assms(1)] by blast
  from r assms(2) have pf': "pf' = pf\<lparr>particles := ps'\<rparr>" by simp
  have "\<And>j. j < nat (num_particles pf) \<Longrightarrow>
          ps' ! j = noisy_particle lib dt (s0, s1, s2) v w j (particles pf ! j)"
    using nth assms(1) by auto
  then show ?thesis
    unfolding prediction_noise_def pf'
    by (intro map_cong refl) (auto simp: noisy_particle_def split: prod.splits)
qed

lemma counter_library_simps:
  "default_random_engine counter_library = 1"
  "standard_normal counter_library g = (real g / 2, Suc g)"
  "generate_canonical counter_library g = (1 / (real g + 2), Suc g)"
  "discrete_sample counter_library ws g = (0, Suc g)"
  by (simp_all add: counter_library_def)

lemma prediction_one_particle:
  "prediction lib dt (s0, s1, s2) v 0 (one_particle_filter x y 0)
   = Some (one_particle_filter (nth_normal lib 0 * s0 + (x + v * dt)) (nth_normal lib 1 * s1 + y)
             (nth_normal lib 2 * s2))"
  by (simp add: prediction_def one_particle_filter_def prediction_loop.simps prediction_step_def
      predict_pose_def normal_distribution_def particle_at_def nth_normal_def eval_nat_numeral
      split: prod.splits)

lemma prediction_loop_empty:
  "prediction_loop lib dt sp v w 0 0 gen ps = Some ps"
  by (simp add: prediction_loop.simps)

text \<open>
  C10. On a filter whose \<open>num_particles\<close> first particles exist, \<open>prediction\<close> returns a
  filter with as many particles, in which every particle has the \<open>id\<close>, \<open>weight\<close>,
  \<open>associations\<close>, \<open>sense_x\<close> and \<open>sense_y\<close> it had; the other members of the filter
  are unchanged too.
\<close>

theorem prediction_changes_pose_only:
  assumes "num_particles pf \<le> int (length (particles pf))"
  shows "\<exists>pf'. prediction lib delta_t std_pos velocity yaw_rate pf = Some pf'
           \<and> length (particles pf') = length (particles pf)
           \<and> num_particles pf' = num_particles pf
           \<and> is_initialized pf' = is_initialized pf
           \<and> max_weight pf' = max_weight pf
           \<and> (\<forall>j<length (particles pf).
                 p_id (particles pf' ! j) = p_id (particles pf ! j)
               \<and> weight (particles pf' ! j) = weight (particles pf ! j)
               \<and> associations (particles pf' ! j) = associations (particles pf ! j)
               \<and> sense_x (particles pf' ! j) = sense_x (particles pf ! j)
               \<and> sense_y (particles pf' ! j) = sense_y (particles pf ! j))"
proof -
  obtain ps' where r: "prediction lib delta_t std_pos velocity yaw_rate pf = Some (pf\<lparr>particles := ps'\<rparr>)"
    and len: "length ps' = length (particles pf)"
    and nth: "\<forall>j<length (particles pf). ps' ! j =
                 (if int j < num_particles pf
                  then noisy_particle lib delta_t std_pos velocity yaw_rate j (particles pf ! j)
                  else particles pf ! j)"
    using prediction_spec [OF assms] by blast
  have "\<forall>j<length (particles pf).
                 p_id (ps' ! j) = p_id (particles pf ! j)
               \<and> weight (ps' ! j) = weight (particles pf ! j)
               \<and> associations (ps' ! j) = associations (particles pf ! j)
               \<and> sense_x (ps' ! j) = sense_x (particles pf ! j)
               \<and> sense_y (ps' ! j) = sense_y (particles pf ! j)"
    using nth by (simp add: noisy_particle_frame)
  with r len show ?thesis by simp
qed

theorem prediction_changes_pose_only_witness:
  "num_particles two_particle_filter \<le> int (length (particles two_particle_filter))
   \<and> (\<exists>pf'. prediction counter_library 1 (1, 1, 1) 10 0 two_particle_filter = Some pf'
         \<and> length (particles pf') = 2
         \<and> num_particles pf' = 2
         \<and> p_id (particles pf' ! 0) = 4
         \<and> weight (particles pf' ! 0) = 1 / 2
         \<and> associations (particles pf' ! 0) = [3]
         \<and> sense_x (particles pf' ! 0) = [1]
         \<and> sense_y (particles pf' ! 0) = [2]
         \<and> p_id (particles pf' ! 1) = 5
         \<and> weight (particles pf' ! 1) = 1 / 4)"
proof -
  have h: "num_particles two_particle_filter \<le> int (length (particles two_particle_filter))"
    by (simp add: two_particle_filter_def)
  have l: "length (particles two_particle_filter) = Suc (Suc 0)"
    by (simp add: two_particle_filter_def)
  have p: "particles two_particle_filter ! 0
           = \<lparr>p_id = 4, p_x = 0, p_y = 0, p_theta = 0, weight = 1 / 2,
                     associations = [3], sense_x = [1], sense_y = [2]\<rparr>"
     "particles two_particle_filter ! Suc 0 = particle_at 5 1 1 0 (1 / 4)"
     "num_particles two_particle_filter = 2"
    by (simp_all add: two_particle_filter_def)
  show ?thesis
    using h prediction_changes_pose_only [OF h, of counter_library 1 "(1, 1, 1)" 10 0]
    by (auto simp: l p particle_at_def less_Suc_eq)
qed

text \<open>
  C9. The claim: the pseudorandom source is long-lived filter state, so that two
  successive \<open>prediction\<close> calls with identical inputs do not draw identical noise. The
  code constructs the engine inside the call. With the counter library, two successive
  calls with \<open>\<Delta>t = 1\<close>, standard deviations \<open>(1, 1, 0)\<close>, \<open>v = 10\<close> and \<open>\<omega> = 0\<close> on a
  particle at \<open>(0, 0, 0)\<close> both add the noise \<open>(1/2, 1, 0)\<close>.
\<close>

theorem prediction_noise_repeats_counterexample:
  "prediction counter_library 1 (1, 1, 0) 10 0 (one_particle_filter 0 0 0)
     = Some (one_particle_filter (21 / 2) 1 0)
   \<and> prediction counter_library 1 (1, 1, 0) 10 0 (one_particle_filter (21 / 2) 1 0)
     = Some (one_particle_filter 21 2 0)
   \<and> prediction_noise 1 10 0 (one_particle_filter 0 0 0) (one_particle_filter (21 / 2) 1 0)
     = [(1 / 2, 1, 0)]
   \<and> prediction_noise 1 10 0 (one_particle_filter (21 / 2) 1 0) (one_particle_filter 21 2 0)
     = [(1 / 2, 1, 0)]"
proof -
  have "prediction counter_library 1 (1, 1, 0) 10 0 (one_particle_filter 0 0 0)
        = Some (one_particle_filter (21 / 2) 1 0)"
    by (simp add: prediction_one_particle nth_normal_def counter_library_simps)
  moreover have "prediction counter_library 1 (1, 1, 0) 10 0 (one_particle_filter (21 / 2) 1 0)
        = Some (one_particle_filter 21 2 0)"
    by (simp add: prediction_one_particle nth_normal_def counter_library_simps)
  moreover have "prediction_noise 1 10 0 (one_particle_filter 0 0 0)
        (one_particle_filter (21 / 2) 1 0) = [(1 / 2, 1, 0)]"
    by (simp add: prediction_noise_def one_particle_filter_def particle_at_def predict_pose_def)
  moreover have "prediction_noise 1 10 0 (one_particle_filter (21 / 2) 1 0)
        (one_particle_filter 21 2 0) = [(1 / 2, 1, 0)]"
    by (simp add: prediction_noise_def one_particle_filter_def particle_at_def predict_pose_def)
  ultimately show ?thesis by simp
qed

text \<open>
  C9, as amended. The engine is not filter state: every \<open>prediction\<close> call starts from a
  default-constructed engine. The noise a call adds to particle \<open>j\<close> is the standard
  deviation of the axis times the normal variate of index \<open>3 j\<close>, \<open>3 j + 1\<close> or
  \<open>3 j + 2\<close> of a default-constructed engine, whatever the poses and the controls are;
  so two successive calls with the same standard deviations add the same noise.
\<close>

theorem prediction_noise_same_every_call:
  assumes "num_particles pf \<le> int (length (particles pf))"
  shows "\<exists>pf1 pf2.
           prediction lib delta_t (s0, s1, s2) velocity yaw_rate pf = Some pf1
         \<and> prediction lib delta_t' (s0, s1, s2) velocity' yaw_rate' pf1 = Some pf2
         \<and> prediction_noise delta_t velocity yaw_rate pf pf1
             = map (\<lambda>j. (nth_normal lib (3 * j) * s0, nth_normal lib (3 * j + 1) * s1,
                          nth_normal lib (3 * j + 2) * s2)) [0..<nat (num_particles pf)]
         \<and> prediction_noise delta_t' velocity' yaw_rate' pf1 pf2
             = prediction_noise delta_t velocity yaw_rate pf pf1"
proof -
  obtain ps1 where r1: "prediction lib delta_t (s0, s1, s2) velocity yaw_rate pf
                        = Some (pf\<lparr>particles := ps1\<rparr>)"
    and len1: "length ps1 = length (particles pf)"
    using prediction_spec [OF assms] by blast
  let ?pf1 = "pf\<lparr>particles := ps1\<rparr>"
  have inv1: "num_particles ?pf1 \<le> int (length (particles ?pf1))"
    using assms len1 by simp
  obtain ps2 where r2: "prediction lib delta_t' (s0, s1, s2) velocity' yaw_rate' ?pf1
                        = Some (?pf1\<lparr>particles := ps2\<rparr>)"
    using prediction_spec [OF inv1] by blast
  have n1: "prediction_noise delta_t velocity yaw_rate pf ?pf1
            = map (\<lambda>j. (nth_normal lib (3 * j) * s0, nth_normal lib (3 * j + 1) * s1,
                         nth_normal lib (3 * j + 2) * s2)) [0..<nat (num_particles pf)]"
    by (rule prediction_noise_eq [OF assms r1])
  have n2: "prediction_noise delta_t' velocity' yaw_rate' ?pf1 (?pf1\<lparr>particles := ps2\<rparr>)
            = map (\<lambda>j. (nth_normal lib (3 * j) * s0, nth_normal lib (3 * j + 1) * s1,
                         nth_normal lib (3 * j + 2) * s2)) [0..<nat (num_particles ?pf1)]"
    by (rule prediction_noise_eq [OF inv1 r2])
  from r1 r2 n1 n2 show ?thesis by simp
qed

theorem prediction_noise_same_every_call_witness:
  "num_particles (one_particle_filter 0 0 0) \<le> int (length (particles (one_particle_filter 0 0 0)))
   \<and> (\<exists>pf1 pf2.
         prediction counter_library 1 (1, 1, 0) 10 0 (one_particle_filter 0 0 0) = Some pf1
       \<and> prediction counter_library 2 (1, 1, 0) 5 0 pf1 = Some pf2
       \<and> prediction_noise 1 10 0 (one_particle_filter 0 0 0) pf1 = [(1 / 2, 1, 0)]
       \<and> prediction_noise 2 5 0 pf1 pf2 = [(1 / 2, 1, 0)])"
proof -
  have h: "num_particles (one_particle_filter 0 0 0)
           \<le> int (length (particles (one_particle_filter 0 0 0)))"
    by (simp add: one_particle_filter_def)
  have n: "nat (num_particles (one_particle_filter 0 0 0)) = Suc 0"
    by (simp add: one_particle_filter_def)
  show ?thesis
    using h prediction_noise_same_every_call [OF h, of counter_library 1 1 1 0 10 0 2 5 0]
    by (auto simp: n nth_normal_def counter_library_simps)
qed

section \<open>The flag is_initialized\<close>

text \<open>
  C8. The claim: \<open>prediction\<close> and \<open>updateWeights\<close> fail with \<open>NotInitialized\<close> on a
  filter on which \<open>init\<close> has not run. The code returns normally: on the filter with the
  flag unset and no particles, \<open>prediction\<close> returns the filter as it is, and so does
  \<open>updateWeights\<close> (which sets \<open>max_weight\<close> to 0).
\<close>

theorem not_initialized_counterexample:
  "prediction counter_library 1 (1, 1, 1) 10 0
       \<lparr>num_particles = 0, is_initialized = False, particles = [], max_weight = 0\<rparr>
     = Some \<lparr>num_particles = 0, is_initialized = False, particles = [], max_weight = 0\<rparr>
   \<and> updateWeights 50 (1, 1) [\<lparr>o_x = 1, o_y = 0\<rparr>] \<lparr>landmark_list = [\<lparr>x_f = 1, y_f = 0\<rparr>]\<rparr>
       \<lparr>num_particles = 0, is_initialized = False, particles = [], max_weight = 0\<rparr>
     = Some \<lparr>num_particles = 0, is_initialized = False, particles = [], max_weight = 0\<rparr>"
  by (simp add: prediction_def updateWeights_def prediction_loop_empty)

text \<open>
  C8, as amended. Neither function reads \<open>is_initialized\<close>: on a filter with the flag
  unset each does what it does on the same filter with the flag set, and leaves the flag
  unset. On the filter without particles \<open>prediction\<close> returns the filter unchanged and
  \<open>updateWeights\<close> returns it with \<open>max_weight\<close> 0.
\<close>

theorem prediction_updateWeights_ignore_is_initialized:
  "prediction lib delta_t std_pos velocity yaw_rate (pf\<lparr>is_initialized := False\<rparr>)
     = map_option (\<lambda>pf'. pf'\<lparr>is_initialized := False\<rparr>)
         (prediction lib delta_t std_pos velocity yaw_rate pf)
   \<and> updateWeights sensor_range std_landmark observations map_landmarks
       (pf\<lparr>is_initialized := False\<rparr>)
     = map_option (\<lambda>pf'. pf'\<lparr>is_initialized := False\<rparr>)
         (updateWeights sensor_range std_landmark observations map_landmarks pf)
   \<and> prediction lib delta_t std_pos velocity yaw_rate
       \<lparr>num_particles = 0, is_initialized = False, particles = [], max_weight = mw\<rparr>
     = Some \<lparr>num_particles = 0, is_initialized = False, particles = [], max_weight = mw\<rparr>
   \<and> updateWeights sensor_range std_landmark observations map_landmarks
       \<lparr>num_particles = 0, is_initialized = False, particles = [], max_weight = mw\<rparr>
     = Some \<lparr>num_particles = 0, is_initialized = False, particles = [], max_weight = 0\<rparr>"
proof -
  have "prediction lib delta_t std_pos velocity yaw_rate (pf\<lparr>is_initialized := False\<rparr>)
     = map_option (\<lambda>pf'. pf'\<lparr>is_initialized := False\<rparr>)
         (prediction lib delta_t std_pos velocity yaw_rate pf)"
    by (cases pf) (simp add: prediction_def option.map_comp comp_def)
  moreover have "updateWeights sensor_range std_landmark observations map_landmarks
       (pf\<lparr>is_initialized := False\<rparr>)
     = map_option (\<lambda>pf'. pf'\<lparr>is_initialized := False\<rparr>)
         (updateWeights sensor_range std_landmark observations map_landmarks pf)"
    by (cases pf) (simp add: updateWeights_def split: option.splits prod.splits)
  moreover have "prediction lib delta_t std_pos velocity yaw_rate
       \<lparr>num_particles = 0, is_initialized = False, particles = [], max_weight = mw\<rparr>
     = Some \<lparr>num_particles = 0, is_initialized = False, particles = [], max_weight = mw\<rparr>"
    by (simp add: prediction_def prediction_loop_empty)
  moreover have "updateWeights sensor_range std_landmark observations map_landmarks
       \<lparr>num_particles = 0, is_initialized = False, particles = [], max_weight = mw\<rparr>
     = Some \<lparr>num_particles = 0, is_initialized = False, particles = [], max_weight = 0\<rparr>"
    by (simp add: updateWeights_def)
  ultimately show ?thesis by simp
qed

section \<open>Properties of updateWeights\<close>

lemma observation_loop_product:
  assumes "landmark_list m \<noteq> []"
  shows "observation_loop sl m obs p
         = Some (p\<lparr>weight := weight p
                     * prod_list (map (observation_density sl m (p_x p, p_y p, p_theta p)) obs)\<rparr>)"
proof (induction obs arbitrary: p)
  case Nil
  show ?case by simp
next
  case (Cons ob obs)
  let ?t = "transform_obs (p_x p) (p_y p) (p_theta p) ob"
  have inr: "0 \<le> dataAssociation ?t m \<and> nat (dataAssociation ?t m) < length (landmark_list m)"
    by (rule dataAssociation_in_range [OF assms])
  show ?case
    using inr
    by (simp add: Let_def Cons.IH observation_density_def mult.assoc)
qed

lemma running_max_insert:
  assumes "finite W"
  shows "Max (insert (if w > a then w else a) W) = Max (insert a (insert w W))"
proof -
  have m: "(if w > a then w else a) = max a w" by (auto simp: max_def)
  show ?thesis
  proof (cases "W = {}")
    case True
    then show ?thesis by (simp add: m)
  next
    case False
    with assms show ?thesis by (simp add: m max.assoc)
  qed
qed

lemma particle_loop_spec:
  assumes "landmark_list m \<noteq> []"
  shows "particle_loop sl obs m ps mw
         = Some (map (reweighed sl obs m) ps,
                 Max (insert mw (weight ` set (map (reweighed sl obs m) ps))))"
proof (induction ps arbitrary: mw)
  case Nil
  show ?case by simp
next
  case (Cons p ps)
  let ?p' = "reweighed sl obs m p"
  let ?W = "weight ` reweighed sl obs m ` set ps"
  have ol: "observation_loop sl m obs (p\<lparr>weight := 1\<rparr>) = Some ?p'"
    by (simp add: observation_loop_product [OF assms] reweighed_def)
  have mx: "Max (insert (if weight ?p' > mw then weight ?p' else mw) ?W)
            = Max (insert mw (insert (weight ?p') ?W))"
    by (rule running_max_insert) simp
  have "particle_loop sl obs m (p # ps) mw
        = Some (?p' # map (reweighed sl obs m) ps,
                Max (insert (if weight ?p' > mw then weight ?p' else mw) ?W))"
    by (simp add: ol Cons.IH del: Max_insert)
  then show ?case
    by (simp add: mx insert_commute del: Max_insert)
qed

lemma normPdf2d_nonneg:
  "0 < sig_x \<Longrightarrow> 0 < sig_y \<Longrightarrow> 0 \<le> normPdf2d x y mu_x mu_y sig_x sig_y"
  by (simp add: normPdf2d_def)

lemma observation_density_nonneg:
  "0 < fst sl \<Longrightarrow> 0 < snd sl \<Longrightarrow> 0 \<le> observation_density sl m pose ob"
  by (cases pose) (simp add: observation_density_def Let_def normPdf2d_nonneg)

lemma prod_list_nonneg_real:
  "(\<And>x. x \<in> set xs \<Longrightarrow> (0::real) \<le> x) \<Longrightarrow> 0 \<le> prod_list xs"
  by (induction xs) auto

lemma reweighed_nonneg:
  "0 < fst sl \<Longrightarrow> 0 < snd sl \<Longrightarrow> 0 \<le> weight (reweighed sl obs m p)"
  by (auto simp: reweighed_def intro!: prod_list_nonneg_real observation_density_nonneg)

lemma updateWeights_spec:
  assumes "landmark_list m \<noteq> []"
  shows "updateWeights sr sl obs m pf
         = Some (pf\<lparr>particles := map (reweighed sl obs m) (particles pf),
                    max_weight := Max (insert 0 (weight ` set (map (reweighed sl obs m) (particles pf))))\<rparr>)"
  by (simp add: updateWeights_def particle_loop_spec [OF assms] del: Max_insert)

lemma foldl_running_product:
  "foldl (\<lambda>w x. w * f x) a xs = (a::real) * prod_list (map f xs)"
  by (induction xs arbitrary: a) (simp_all add: mult.assoc)

lemma observation_density_example:
  "observation_density (1, 1) one_landmark_map (0, 0, 0) \<lparr>o_x = 1, o_y = 0\<rparr> = 1 / (2 * pi)"
  by (simp add: observation_density_def one_landmark_map_def transform_obs_def normPdf2d_def
      dataAssociation_def dataAssociation_loop.simps Let_def)

text \<open>
  With an empty landmark list, a particle and an observation, line 163 reads
  \<^verbatim>\<open>landmark_list[0]\<close> of an empty vector: the call has no defined outcome.
\<close>

lemma updateWeights_empty_map:
  "updateWeights sensor_range std_landmark (observation # observations) \<lparr>landmark_list = []\<rparr>
     (pf\<lparr>particles := particle # rest\<rparr>) = None"
  by (simp add: updateWeights_def Let_def)

text \<open>
  C4. With a non-empty landmark list, \<open>updateWeights\<close> returns, and the weight it gives to
  each particle is the product, over all observations of the batch, of the density
  \<open>normPdf2d\<close> at the observation transformed with that particle's pose, centred at the
  landmark that \<open>dataAssociation\<close> gives; equivalently the running product that starts
  from 1. The weight the particle had does not enter, and nothing else of the particle
  changes.
\<close>

theorem updateWeights_weight_is_product:
  assumes "landmark_list map_landmarks \<noteq> []"
  shows "\<exists>pf'. updateWeights sensor_range std_landmark observations map_landmarks pf = Some pf'
           \<and> length (particles pf') = length (particles pf)
           \<and> (\<forall>j<length (particles pf).
                 weight (particles pf' ! j)
                   = prod_list (map (observation_density std_landmark map_landmarks
                                       (p_x (particles pf ! j), p_y (particles pf ! j),
                                        p_theta (particles pf ! j))) observations)
               \<and> weight (particles pf' ! j)
                   = foldl (\<lambda>w ob. w * observation_density std_landmark map_landmarks
                                       (p_x (particles pf ! j), p_y (particles pf ! j),
                                        p_theta (particles pf ! j)) ob) 1 observations
               \<and> particles pf' ! j = (particles pf ! j)\<lparr>weight := weight (particles pf' ! j)\<rparr>)"
  by (simp add: updateWeights_spec [OF assms] reweighed_def foldl_running_product
      del: Max_insert)

theorem updateWeights_weight_is_product_witness:
  "landmark_list one_landmark_map \<noteq> []
   \<and> (\<exists>pf'. updateWeights 50 (1, 1) [\<lparr>o_x = 1, o_y = 0\<rparr>] one_landmark_map two_particle_filter
              = Some pf'
         \<and> length (particles pf') = 2
         \<and> weight (particles pf' ! 0) = 1 / (2 * pi)
         \<and> particles pf' ! 0
           = \<lparr>p_id = 4, p_x = 0, p_y = 0, p_theta = 0, weight = 1 / (2 * pi),
               associations = [3], sense_x = [1], sense_y = [2]\<rparr>)"
proof -
  have h: "landmark_list one_landmark_map \<noteq> []"
    by (simp add: one_landmark_map_def)
  have l: "length (particles two_particle_filter) = Suc (Suc 0)"
    by (simp add: two_particle_filter_def)
  have p: "particles two_particle_filter ! 0
           = \<lparr>p_id = 4, p_x = 0, p_y = 0, p_theta = 0, weight = 1 / 2,
                     associations = [3], sense_x = [1], sense_y = [2]\<rparr>"
    by (simp add: two_particle_filter_def)
  show ?thesis
    using h updateWeights_weight_is_product [OF h, of 50 "(1, 1)" "[\<lparr>o_x = 1, o_y = 0\<rparr>]"
        two_particle_filter]
    by (auto simp: l p observation_density_example less_Suc_eq)
qed

text \<open>
  C6. After \<open>updateWeights\<close> on a filter with at least one particle (a non-empty landmark
  list, positive standard deviations), \<open>max_weight\<close> is the maximum of the weights of
  the particles: some particle has it as its weight, and no particle has a greater one.
\<close>

theorem updateWeights_max_weight:
  assumes "particles pf \<noteq> []" and "landmark_list map_landmarks \<noteq> []"
    and "0 < fst std_landmark" and "0 < snd std_landmark"
  shows "\<exists>pf'. updateWeights sensor_range std_landmark observations map_landmarks pf = Some pf'
           \<and> max_weight pf' = Max (weight ` set (particles pf'))
           \<and> (\<exists>p\<in>set (particles pf'). weight p = max_weight pf')
           \<and> (\<forall>p\<in>set (particles pf'). weight p \<le> max_weight pf')"
proof -
  let ?ps = "map (reweighed std_landmark observations map_landmarks) (particles pf)"
  let ?W = "weight ` set ?ps"
  have fin: "finite ?W" and ne: "?W \<noteq> {}"
    using assms(1) by simp_all
  have nonneg: "\<forall>w\<in>?W. 0 \<le> w"
    using reweighed_nonneg [OF assms(3,4)] by auto
  have "0 \<le> Max ?W"
    using fin ne nonneg by (meson Max_in)
  then have mx: "Max (insert 0 ?W) = Max ?W"
    using fin ne by (simp add: max_def)
  have "Max ?W \<in> ?W" using fin ne by (rule Max_in)
  then have ex: "\<exists>p\<in>set ?ps. weight p = Max ?W" by auto
  have all: "\<forall>p\<in>set ?ps. weight p \<le> Max ?W"
    using fin by (auto intro!: Max_ge)
  have r: "updateWeights sensor_range std_landmark observations map_landmarks pf
           = Some (pf\<lparr>particles := ?ps, max_weight := Max ?W\<rparr>)"
    using updateWeights_spec [OF assms(2), of sensor_range std_landmark observations pf] mx
    by simp
  show ?thesis
    unfolding r using ex all by simp
qed

theorem updateWeights_max_weight_witness:
  "particles (one_particle_filter 0 0 0) \<noteq> [] \<and> landmark_list one_landmark_map \<noteq> []
   \<and> (0::real) < fst (1, 1) \<and> (0::real) < snd (1, 1)
   \<and> (\<exists>pf'. updateWeights 50 (1, 1) [\<lparr>o_x = 1, o_y = 0\<rparr>] one_landmark_map
                (one_particle_filter 0 0 0) = Some pf'
         \<and> max_weight pf' = 1 / (2 * pi)
         \<and> weight (particles pf' ! 0) = 1 / (2 * pi))"
proof -
  have h1: "particles (one_particle_filter 0 0 0) \<noteq> []"
    by (simp add: one_particle_filter_def)
  have h2: "landmark_list one_landmark_map \<noteq> []"
    by (simp add: one_landmark_map_def)
  have h3: "(0::real) < fst (1, 1)" and h4: "(0::real) < snd (1, 1)" by simp_all
  have e: "updateWeights 50 (1, 1) [\<lparr>o_x = 1, o_y = 0\<rparr>] one_landmark_map
             (one_particle_filter 0 0 0)
           = Some \<lparr>num_particles = 1, is_initialized = True,
                   particles = [particle_at 0 0 0 0 (1 / (2 * pi))],
                   max_weight = 1 / (2 * pi)\<rparr>"
    by (simp add: updateWeights_spec [OF h2] one_particle_filter_def particle_at_def
        reweighed_def observation_density_example max_def)
  show ?thesis
    using h1 h2 updateWeights_max_weight [OF h1 h2 h3 h4, of 50 "[\<lparr>o_x = 1, o_y = 0\<rparr>]"]
    by (simp add: e particle_at_def)
qed

section \<open>Properties of resample\<close>

lemma smod_next_index:
  "(int i + 1) smod int N = int (Suc i mod N)"
  by (simp add: signed_modulo_int_def zmod_int sgn_if add.commute)

lemma wheel_stop:
  "i < length ps \<Longrightarrow> \<not> b > weight (ps ! i) \<Longrightarrow> wheel ps n b (int i) = Some (b, int i)"
  by (subst wheel.simps) simp

lemma wheel_stop_at:
  "0 \<le> index \<Longrightarrow> nat index < length ps \<Longrightarrow> \<not> b > weight (ps ! nat index) \<Longrightarrow>
   wheel ps n b index = Some (b, index)"
  by (subst wheel.simps) simp

lemma wheel_advance:
  "i < length ps \<Longrightarrow> b > weight (ps ! i) \<Longrightarrow>
   wheel ps (int (length ps)) b (int i)
   = wheel ps (int (length ps)) (b - weight (ps ! i)) (int (Suc i mod length ps))"
  by (subst wheel.simps) (simp add: smod_next_index)

text \<open>
  The \<^verbatim>\<open>while\<close> loop ends when no weight is negative and some weight is positive: \<open>b\<close>
  is at most \<open>c\<close> times the positive weight at index \<open>k\<close>, which is \<open>d\<close> steps ahead.
\<close>

lemma wheel_returns_aux:
  assumes nonneg: "\<forall>p\<in>set ps. 0 \<le> weight p"
    and k: "k < length ps" and pos: "0 < weight (ps ! k)"
  shows "i < length ps \<Longrightarrow> (i + d) mod length ps = k \<Longrightarrow> b \<le> real c * weight (ps ! k) \<Longrightarrow>
         \<exists>b' i'. wheel ps (int (length ps)) b (int i) = Some (b', int i') \<and> i' < length ps"
proof (induction c arbitrary: b i d)
  case 0
  then have "b \<le> 0" by simp
  moreover have "0 \<le> weight (ps ! i)" using nonneg "0.prems"(1) by simp
  ultimately have "\<not> b > weight (ps ! i)" by simp
  with "0.prems"(1) show ?case using wheel_stop by blast
next
  case (Suc c)
  from Suc.prems show ?case
  proof (induction d arbitrary: b i)
    case 0
    then have ik: "i = k" by simp
    show ?case
    proof (cases "b > weight (ps ! i)")
      case False
      with "0.prems"(1) show ?thesis using wheel_stop by blast
    next
      case True
      let ?i' = "Suc i mod length ps"
      have i': "?i' < length ps" using "0.prems"(1) by (cases ps) simp_all
      have "(?i' + (length ps - Suc 0)) mod length ps
            = (Suc k + (length ps - Suc 0)) mod length ps"
        unfolding ik by (rule mod_add_left_eq)
      also have "Suc k + (length ps - Suc 0) = k + length ps"
        using k by simp
      also have "(k + length ps) mod length ps = k"
        using k by simp
      finally have "(?i' + (length ps - Suc 0)) mod length ps = k" .
      moreover have "b - weight (ps ! i) \<le> real c * weight (ps ! k)"
        using "0.prems"(3) ik by (simp add: algebra_simps)
      ultimately obtain b' j where "wheel ps (int (length ps)) (b - weight (ps ! i)) (int ?i')
                                     = Some (b', int j) \<and> j < length ps"
        using Suc.IH [OF i'] by blast
      then show ?thesis
        using wheel_advance [OF "0.prems"(1) True] by auto
    qed
  next
    case (Suc d)
    show ?case
    proof (cases "b > weight (ps ! i)")
      case False
      with Suc.prems(1) show ?thesis using wheel_stop by blast
    next
      case True
      let ?i' = "Suc i mod length ps"
      have i': "?i' < length ps" using Suc.prems(1) by (cases ps) simp_all
      have d': "(?i' + d) mod length ps = k"
        using Suc.prems(2) by (simp add: mod_add_left_eq)
      have "0 \<le> weight (ps ! i)" using nonneg Suc.prems(1) by simp
      then have "b - weight (ps ! i) \<le> real (Suc c) * weight (ps ! k)"
        using Suc.prems(3) by linarith
      then obtain b' j where "wheel ps (int (length ps)) (b - weight (ps ! i)) (int ?i')
                                     = Some (b', int j) \<and> j < length ps"
        using Suc.IH [OF i' d'] by blast
      then show ?thesis
        using wheel_advance [OF Suc.prems(1) True] by auto
    qed
  qed
qed

lemma wheel_returns:
  assumes nonneg: "\<forall>p\<in>set ps. 0 \<le> weight p"
    and pos: "\<exists>p\<in>set ps. 0 < weight p"
    and i: "0 \<le> index" "nat index < length ps"
  shows "\<exists>b' i'. wheel ps (int (length ps)) b index = Some (b', int i') \<and> i' < length ps"
proof -
  from pos obtain k where k: "k < length ps" and wk: "0 < weight (ps ! k)"
    by (auto simp: in_set_conv_nth)
  obtain c :: nat where c: "b / weight (ps ! k) \<le> real c"
    using real_arch_simple by blast
  then have bc: "b \<le> real c * weight (ps ! k)"
    using wk by (simp add: field_simps)
  let ?d = "(k + length ps - nat index) mod length ps"
  have "(nat index + ?d) mod length ps = k"
    using k i(2) by (simp add: mod_add_right_eq)
  from wheel_returns_aux [OF nonneg k wk i(2) this bc]
  show ?thesis using i(1) by simp
qed

lemma resample_loop_returns:
  assumes inv: "num_particles pf = int (length (particles pf))"
    and nonneg: "\<forall>p\<in>set (particles pf). 0 \<le> weight p"
    and pos: "\<exists>p\<in>set (particles pf). 0 < weight p"
  shows "0 \<le> index \<Longrightarrow> nat index < length (particles pf) \<Longrightarrow> 0 \<le> i \<Longrightarrow>
         \<exists>res. resample_loop lib pf i index b gen acc = Some res
           \<and> length res = length acc + nat (num_particles pf - i)
           \<and> set res \<subseteq> set acc \<union> set (particles pf)"
  using inv nonneg pos
proof (induction lib pf i index b gen acc rule: resample_loop.induct)
  case (1 lib pf i index b gen acc)
  show ?case
  proof (cases "i < num_particles pf")
    case False
    then have "resample_loop lib pf i index b gen acc = Some acc"
      using resample_loop.simps [of lib pf i index b gen acc] by simp
    with False show ?thesis by auto
  next
    case True
    obtain beta gen' where u: "uniform_real_distribution lib 0 (max_weight pf) gen = (beta, gen')"
      by (cases "uniform_real_distribution lib 0 (max_weight pf) gen") auto
    obtain b' j where w: "wheel (particles pf) (num_particles pf) (b + beta) index = Some (b', int j)"
      and j: "j < length (particles pf)"
      using wheel_returns [OF "1.prems"(5,6) "1.prems"(1,2), of "b + beta"] "1.prems"(4) by auto
    have step: "resample_loop lib pf i index b gen acc
                = resample_loop lib pf (i + 1) (int j) b' gen' (acc @ [particles pf ! j])"
      using True u w resample_loop.simps [of lib pf i index b gen acc] by simp
    obtain res where r: "resample_loop lib pf (i + 1) (int j) b' gen' (acc @ [particles pf ! j])
                         = Some res"
      and len: "length res = length (acc @ [particles pf ! j]) + nat (num_particles pf - (i + 1))"
      and sub: "set res \<subseteq> set (acc @ [particles pf ! j]) \<union> set (particles pf)"
      using "1.IH" [OF True u [symmetric] w refl _ _ _ "1.prems"(4,5,6)] j "1.prems"(3)
      by auto
    have "length res = length acc + nat (num_particles pf - i)"
      using len True "1.prems"(3) by simp
    moreover have "set res \<subseteq> set acc \<union> set (particles pf)"
      using sub j by auto
    ultimately show ?thesis using step r by simp
  qed
qed

lemma discrete_draw_start:
  "discrete_draw lib (discrete_distribution 0 n) gen = (0, gen)"
  by (simp add: discrete_draw_def discrete_distribution_def)

text \<open>
  With \<open>num_particles\<close> particles, no negative weight and some positive weight,
  \<open>resample\<close> returns a filter with as many particles, each of them a particle of the
  filter it was called on.
\<close>

lemma resample_returns:
  assumes "num_particles pf = int (length (particles pf))"
    and "\<forall>p\<in>set (particles pf). 0 \<le> weight p"
    and "\<exists>p\<in>set (particles pf). 0 < weight p"
  shows "\<exists>ps'. resample lib pf = Some (pf\<lparr>particles := ps'\<rparr>)
           \<and> length ps' = length (particles pf)
           \<and> set ps' \<subseteq> set (particles pf)"
proof -
  from assms(3) have ne: "0 < length (particles pf)" by auto
  obtain res where "resample_loop lib pf 0 0 0 (default_random_engine lib) [] = Some res"
    and "length res = length [] + nat (num_particles pf - 0)"
    and "set res \<subseteq> set [] \<union> set (particles pf)"
    using resample_loop_returns [OF assms, of 0 0 lib 0 "default_random_engine lib" "[]"] ne
    by auto
  then show ?thesis
    using assms(1) by (auto simp: resample_def discrete_draw_start)
qed


text \<open>
  With all weights 0 and \<open>b\<close> positive the \<^verbatim>\<open>while\<close> loop does not end: a call that
  returns is not in that state.
\<close>

lemma wheel_Some_not_stuck:
  assumes "wheel ps n b index = Some y"
  shows "\<not> ((\<forall>p\<in>set ps. weight p = 0) \<and> 0 < b \<and> 0 \<le> index \<and> nat index < length ps
            \<and> n = int (length ps))"
proof (rule wheel.raw_induct
    [where P = "\<lambda>ps n b index y.
        \<not> ((\<forall>p\<in>set ps. weight p = 0) \<and> 0 < b \<and> 0 \<le> index \<and> nat index < length ps
           \<and> n = int (length ps))", OF _ assms])
  fix f :: "Particle list \<Rightarrow> int \<Rightarrow> real \<Rightarrow> int \<Rightarrow> (real \<times> int) option"
  fix ps n b index y
  assume IH: "\<And>ps n b index y. f ps n b index = Some y \<Longrightarrow>
        \<not> ((\<forall>p\<in>set ps. weight p = 0) \<and> 0 < b \<and> 0 \<le> index \<and> nat index < length ps
           \<and> n = int (length ps))"
    and body: "(if 0 \<le> index \<and> nat index < length ps
         then if weight (ps ! nat index) < b
              then f ps n (b - weight (ps ! nat index)) ((index + 1) smod n)
              else Some (b, index)
         else None) = Some y"
  show "\<not> ((\<forall>p\<in>set ps. weight p = 0) \<and> 0 < b \<and> 0 \<le> index \<and> nat index < length ps
           \<and> n = int (length ps))"
  proof
    assume stuck: "(\<forall>p\<in>set ps. weight p = 0) \<and> 0 < b \<and> 0 \<le> index \<and> nat index < length ps
      \<and> n = int (length ps)"
    then have w0: "weight (ps ! nat index) = 0" by simp
    from stuck have "(index + 1) smod n = int (Suc (nat index) mod length ps)"
      using smod_next_index [of "nat index" "length ps"] by simp
    moreover have "Suc (nat index) mod length ps < length ps"
      using stuck by (cases ps) simp_all
    ultimately have next_in: "0 \<le> (index + 1) smod n \<and> nat ((index + 1) smod n) < length ps"
      by simp
    from body stuck w0 have "f ps n b ((index + 1) smod n) = Some y"
      by simp
    from IH [OF this] stuck next_in show False by simp
  qed
qed

lemma wheel_diverges:
  "\<forall>p\<in>set ps. weight p = 0 \<Longrightarrow> 0 < b \<Longrightarrow> i < length ps \<Longrightarrow>
   wheel ps (int (length ps)) b (int i) = None"
  using wheel_Some_not_stuck [of ps "int (length ps)" b "int i"]
  by (cases "wheel ps (int (length ps)) b (int i)") auto

lemma zero_weight_filter_simps:
  "num_particles (zero_weight_filter mw) = 2"
  "particles (zero_weight_filter mw) = [particle_at 0 0 0 0 0, particle_at 1 5 5 0 0]"
  "max_weight (zero_weight_filter mw) = mw"
  by (simp_all add: zero_weight_filter_def)

lemma unit_weight_filter_simps:
  "num_particles unit_weight_filter = 3"
  "particles unit_weight_filter
   = [particle_at 0 0 0 0 1, particle_at 1 5 5 0 1, particle_at 2 9 9 0 1]"
  "max_weight unit_weight_filter = 1"
  by (simp_all add: unit_weight_filter_def)

text \<open>
  C2. The claim: \<open>resample\<close> follows the wheel, from a starting index drawn uniformly at
  random from \<open>[0, N)\<close>. The code does not draw such an index: \<open>rand_index\<close> is a
  discrete distribution without weights, and the starting index is 0 in every call, for
  every library and every filter. With three particles of weight 1 and the counter
  library, the new set is three copies of the particle of index 0.
\<close>

theorem resample_start_index_is_zero:
  "fst (discrete_draw lib (discrete_distribution 0 (num_particles pf)) (default_random_engine lib))
     = 0
   \<and> resample counter_library unit_weight_filter
     = Some (unit_weight_filter\<lparr>particles :=
               [particle_at 0 0 0 0 1, particle_at 0 0 0 0 1, particle_at 0 0 0 0 1]\<rparr>)"
proof -
  let ?ps = "[particle_at 0 0 0 0 1, particle_at 1 5 5 0 1, particle_at 2 9 9 0 1]"
  have w: "wheel ?ps 3 (1 / 3) 0 = Some (1 / 3, 0)"
    "wheel ?ps 3 (7 / 12) 0 = Some (7 / 12, 0)"
    "wheel ?ps 3 (47 / 60) 0 = Some (47 / 60, 0)"
    by (simp_all add: wheel_stop_at particle_at_def)
  have "resample counter_library unit_weight_filter
     = Some (unit_weight_filter\<lparr>particles :=
               [particle_at 0 0 0 0 1, particle_at 0 0 0 0 1, particle_at 0 0 0 0 1]\<rparr>)"
    by (simp add: resample_def discrete_draw_start resample_loop.simps unit_weight_filter_simps
        uniform_real_distribution_def counter_library_def w)
  then show ?thesis by (simp add: discrete_draw_start)
qed


text \<open>
  \<open>max_weight\<close> 0 is what \<open>updateWeights\<close> leaves when all the weights it computed
  are 0: it stores the maximum of 0 and the new weights.
\<close>

lemma particle_loop_max:
  "particle_loop sl obs m ps mw = Some (ps', mw') \<Longrightarrow> mw' = Max (insert mw (weight ` set ps'))"
proof (induction ps arbitrary: mw ps' mw')
  case Nil
  then show ?case by simp
next
  case (Cons p ps)
  from Cons.prems obtain p' rest' where
    ol: "observation_loop sl m obs (p\<lparr>weight := 1\<rparr>) = Some p'"
    and pl: "particle_loop sl obs m ps (if weight p' > mw then weight p' else mw)
             = Some (rest', mw')"
    and ps': "ps' = p' # rest'"
    by (auto split: option.splits)
  have "mw' = Max (insert (if weight p' > mw then weight p' else mw) (weight ` set rest'))"
    by (rule Cons.IH [OF pl])
  also have "\<dots> = Max (insert mw (insert (weight p') (weight ` set rest')))"
    by (rule running_max_insert) simp
  finally show ?case
    by (simp add: ps' insert_commute del: Max_insert)
qed

lemma updateWeights_zero_weights:
  assumes "updateWeights sensor_range std_landmark observations map_landmarks pf = Some pf'"
    and "\<forall>p\<in>set (particles pf'). weight p = 0"
  shows "max_weight pf' = 0"
proof -
  from assms(1) obtain ps' mw' where
    pl: "particle_loop std_landmark observations map_landmarks (particles pf) 0 = Some (ps', mw')"
    and pf': "pf' = pf\<lparr>particles := ps', max_weight := mw'\<rparr>"
    by (auto simp: updateWeights_def split: option.splits)
  have "mw' = Max (insert 0 (weight ` set ps'))"
    by (rule particle_loop_max [OF pl])
  moreover have "insert 0 (weight ` set ps') = {0}"
    using assms(2) pf' by auto
  ultimately show ?thesis
    using pf' by simp
qed

text \<open>
  The hypothesis on \<open>max_weight\<close> is needed: with all weights 0 and \<open>max_weight\<close> 1 (not
  a state that \<open>updateWeights\<close> leaves) the first increment of \<open>b\<close> is positive and the
  \<^verbatim>\<open>while\<close> loop never ends.
\<close>

lemma resample_positive_max_weight_diverges:
  "resample counter_library (zero_weight_filter 1) = None"
proof -
  let ?ps = "[particle_at 0 0 0 0 0, particle_at 1 5 5 0 0]"
  have "\<forall>p\<in>set ?ps. weight p = 0" by (simp add: particle_at_def)
  then have loop: "wheel ?ps 2 (1 / 3) 0 = None"
    using wheel_diverges [of ?ps "1 / 3" 0] by simp
  show ?thesis
    by (simp add: resample_def discrete_draw_start resample_loop.simps zero_weight_filter_simps
        uniform_real_distribution_def counter_library_def loop)
qed






end
